theory Spec2Isabelle
  imports Main "HOL-Library.Sublist"
begin

section \<open>Values of the JavaScript run time\<close>

text \<open>
  The TypeScript interfaces of \<^verbatim>\<open>api.ts\<close> (\<^verbatim>\<open>User\<close>, \<^verbatim>\<open>AuthResponse\<close>,
  \<^verbatim>\<open>ApiResponse<T>\<close>) are erased when the program runs: what \<^verbatim>\<open>response.json()\<close>
  yields is whatever JSON the server sent, and the code inspects it with truthiness tests,
  the \<^verbatim>\<open>in\<close> operator and property reads. Values are therefore JSON values. Numbers are
  integers here (fractions and exponents are not represented); an object is the list of its
  members in the order of the text.
\<close>

datatype json =
    JNull
  | JBool bool
  | JNum int
  | JStr string
  | JArr "json list"
  | JObj "(string \<times> json) list"

text \<open>Truthiness, as \<^verbatim>\<open>if (x)\<close>, \<^verbatim>\<open>!x\<close>, \<^verbatim>\<open>x && y\<close> and \<^verbatim>\<open>x || y\<close> test it.\<close>

fun truthy :: "json \<Rightarrow> bool" where
  "truthy JNull = False"
| "truthy (JBool b) = b"
| "truthy (JNum n) = (n \<noteq> 0)"
| "truthy (JStr s) = (s \<noteq> [])"
| "truthy (JArr xs) = True"
| "truthy (JObj kvs) = True"

text \<open>A value that may be \<^verbatim>\<open>undefined\<close> is a \<open>json option\<close>; \<^verbatim>\<open>undefined\<close> is falsy.\<close>

fun truthy_opt :: "json option \<Rightarrow> bool" where
  "truthy_opt None = False"
| "truthy_opt (Some v) = truthy v"

text \<open>
  \<^verbatim>\<open>v.k\<close> on a value that is neither \<^verbatim>\<open>null\<close> nor \<^verbatim>\<open>undefined\<close>, for the property
  names this program reads (\<^verbatim>\<open>message\<close>, \<^verbatim>\<open>error\<close>, \<^verbatim>\<open>detail\<close>, \<^verbatim>\<open>user\<close>,
  \<^verbatim>\<open>tokens\<close>, \<^verbatim>\<open>access\<close>, \<^verbatim>\<open>username\<close>, \<^verbatim>\<open>response\<close>, \<^verbatim>\<open>data\<close>): none of them is
  a property of a boolean, a number, a string or an array, and \<^verbatim>\<open>JSON.parse\<close> keeps the
  last of several members with the same name. Reading a property of \<^verbatim>\<open>null\<close> throws; the
  places where that can happen test for \<open>JNull\<close> before they call \<open>get\<close>.
\<close>

fun get :: "json \<Rightarrow> string \<Rightarrow> json option" where
  "get (JObj kvs) k = map_of (rev kvs) k"
| "get v k = None"

text \<open>Optional chaining \<^verbatim>\<open>x?.k\<close>: \<^verbatim>\<open>undefined\<close> when \<^verbatim>\<open>x\<close> is \<^verbatim>\<open>null\<close> or \<^verbatim>\<open>undefined\<close>.\<close>

fun opt_get :: "json option \<Rightarrow> string \<Rightarrow> json option" where
  "opt_get None k = None"
| "opt_get (Some JNull) k = None"
| "opt_get (Some v) k = get v k"

text \<open>\<^verbatim>\<open>a || b\<close>, and \<^verbatim>\<open>a || 'literal'\<close> whose value is never \<^verbatim>\<open>undefined\<close>.\<close>

definition js_or :: "json option \<Rightarrow> json option \<Rightarrow> json option" where
  "js_or a b = (if truthy_opt a then a else b)"

definition or_default :: "json option \<Rightarrow> string \<Rightarrow> json" where
  "or_default a d = (case a of None \<Rightarrow> JStr d | Some v \<Rightarrow> if truthy v then v else JStr d)"

text \<open>Decimal digits of a natural number, for \<^verbatim>\<open>String(n)\<close> and template literals.\<close>

function dec :: "nat \<Rightarrow> string" where
  "dec n = (if n < 10 then [''0123456789'' ! n] else dec (n div 10) @ [''0123456789'' ! (n mod 10)])"
  by pat_completeness auto
termination
  by (relation "measure id") auto

text \<open>Elements of a list joined by commas, as \<^verbatim>\<open>Array.prototype.join\<close> does.\<close>

fun join :: "string list \<Rightarrow> string" where
  "join [] = []"
| "join [s] = s"
| "join (s # t # ss) = s @ '','' @ join (t # ss)"

text \<open>
  \<^verbatim>\<open>String(v)\<close>, the conversion that \<^verbatim>\<open>`Bearer ${this.token}`\<close> and
  \<^verbatim>\<open>localStorage.setItem\<close> apply to their argument. An array is the join of its
  elements, with \<^verbatim>\<open>null\<close> elements empty.
\<close>

fun js_string :: "json \<Rightarrow> string" where
  "js_string JNull = ''null''"
| "js_string (JBool b) = (if b then ''true'' else ''false'')"
| "js_string (JNum n) = (if n < 0 then ''-'' @ dec (nat (- n)) else dec (nat n))"
| "js_string (JStr s) = s"
| "js_string (JArr xs) = join (map (\<lambda>x. if x = JNull then [] else js_string x) xs)"
| "js_string (JObj kvs) = ''[object Object]''"

text \<open>
  Thrown values. \<open>TypeError m\<close> is an instance of \<^verbatim>\<open>TypeError\<close> with message \<open>m\<close>,
  \<open>Error m\<close> an instance of any other native error class (\<^verbatim>\<open>SyntaxError\<close>,
  \<^verbatim>\<open>ReferenceError\<close>, \<^verbatim>\<open>DOMException\<close>), \<open>Thrown v\<close> a thrown value that is no
  \<^verbatim>\<open>Error\<close> at all. Native errors carry no \<^verbatim>\<open>response\<close> property.
\<close>

datatype exn = TypeError string | Error string | Thrown json

fun message :: "exn \<Rightarrow> json option" where
  "message (TypeError m) = Some (JStr m)"
| "message (Error m) = Some (JStr m)"
| "message (Thrown v) = opt_get (Some v) ''message''"

fun response_data_error :: "exn \<Rightarrow> json option" where
  "response_data_error (Thrown v) =
     opt_get (opt_get (opt_get (Some v) ''response'') ''data'') ''error''"
| "response_data_error e = None"

text \<open>
  The wording of the errors that the engine itself raises differs between engines, so it
  is a parameter: the \<^verbatim>\<open>TypeError\<close> of \<^verbatim>\<open>'user' in v\<close> on a primitive \<open>v\<close>, the
  \<^verbatim>\<open>TypeError\<close> of reading property \<open>k\<close> of \<^verbatim>\<open>null\<close>, and the \<^verbatim>\<open>ReferenceError\<close>
  of naming \<^verbatim>\<open>localStorage\<close> where there is none.
\<close>

record Engine =
  in_message :: "json \<Rightarrow> string"
  null_message :: "string \<Rightarrow> string"
  undefined_message :: "string \<Rightarrow> string"

section \<open>The API client (\<^verbatim>\<open>src/frontend/src/lib/api.ts\<close>)\<close>

text \<open>
  \<open>Env\<close> is everything outside the session store: the fields of the one \<^verbatim>\<open>apiClient\<close>
  object (\<open>baseURL\<close>, \<open>token\<close> with \<open>JNull\<close> for \<^verbatim>\<open>null\<close>), the browser's
  \<^verbatim>\<open>localStorage\<close> (\<open>None\<close> where \<^verbatim>\<open>typeof window === 'undefined'\<close>), and the calls of
  \<^verbatim>\<open>fetch\<close> issued so far, oldest first. Storage is taken to be unbounded and
  accessible: \<^verbatim>\<open>getItem\<close>, \<^verbatim>\<open>setItem\<close> and \<^verbatim>\<open>removeItem\<close> do not throw. The
  operations run one after the other; calls that overlap in time are not modelled.
\<close>

record RequestInit =
  http_method :: "string option"
  headers :: "string \<rightharpoonup> string"
  body :: "json option"

record Fetch =
  fetch_url :: string
  fetch_method :: "string option"
  fetch_headers :: "string \<rightharpoonup> string"
  fetch_body :: "json option"

record Env =
  baseURL :: string
  token :: json
  localStorage :: "(string \<rightharpoonup> string) option"
  fetched :: "Fetch list"

text \<open>\<^verbatim>\<open>interface ApiResponse<T>\<close>; \<open>None\<close> is an absent property.\<close>

record ApiResponse =
  resp_data :: "json option"
  resp_error :: "json option"

text \<open>
  What the network does with one call of \<^verbatim>\<open>fetch\<close>: the promise rejects, or it resolves
  to a response with a status whose \<^verbatim>\<open>json()\<close> rejects or yields a value.
\<close>

datatype Reply = Rejects exn | Responds nat "exn + json"

definition ok :: "nat \<Rightarrow> bool" where
  "ok status = (200 \<le> status \<and> status \<le> 299)"

text \<open>The constructor, lines 21-26.\<close>

definition ApiClient :: "string \<Rightarrow> (string \<rightharpoonup> string) option \<Rightarrow> Env" where
  "ApiClient url store =
     \<lparr>baseURL = url,
      token = (case store of
                 None \<Rightarrow> JNull
               | Some m \<Rightarrow> (case m ''access_token'' of None \<Rightarrow> JNull | Some s \<Rightarrow> JStr s)),
      localStorage = store,
      fetched = []\<rparr>"

text \<open>\<^verbatim>\<open>setToken\<close>, lines 28-33, and \<^verbatim>\<open>clearToken\<close>, lines 35-40.\<close>

definition setToken :: "json \<Rightarrow> Env \<Rightarrow> Env" where
  "setToken t env =
     env\<lparr>token := t,
         localStorage := (case localStorage env of
                            None \<Rightarrow> None
                          | Some m \<Rightarrow> Some (m(''access_token'' \<mapsto> js_string t)))\<rparr>"

definition clearToken :: "Env \<Rightarrow> Env" where
  "clearToken env =
     env\<lparr>token := JNull,
         localStorage := (case localStorage env of
                            None \<Rightarrow> None
                          | Some m \<Rightarrow> Some (m(''access_token'' := None)))\<rparr>"

text \<open>
  The request primitive, lines 42-73. \<open>prepare\<close> is the code before the \<^verbatim>\<open>try\<close>: the
  URL, the headers (the spread of \<^verbatim>\<open>options.headers\<close> over the content type, then the
  bearer header when \<^verbatim>\<open>this.token\<close> is truthy) and the call of \<^verbatim>\<open>fetch\<close>, recorded in
  \<open>fetched\<close>.
\<close>

definition prepare :: "string \<Rightarrow> RequestInit \<Rightarrow> Env \<Rightarrow> Fetch" where
  "prepare endpoint options env =
     (let url = baseURL env @ endpoint;
          hs = [''Content-Type'' \<mapsto> ''application/json''] ++ headers options;
          hs' = (if truthy (token env)
                 then hs(''Authorization'' \<mapsto> ''Bearer '' @ js_string (token env))
                 else hs)
      in \<lparr>fetch_url = url, fetch_method = http_method options,
          fetch_headers = hs', fetch_body = body options\<rparr>)"

text \<open>
  The body of the \<^verbatim>\<open>try\<close>, lines 58-69, with each place that can throw a branch of its
  own: \<^verbatim>\<open>fetch\<close> rejecting, \<^verbatim>\<open>response.json()\<close> rejecting, and \<^verbatim>\<open>data.message\<close>
  on a body that is \<^verbatim>\<open>null\<close>.
\<close>

definition request_try :: "Engine \<Rightarrow> Reply \<Rightarrow> exn + ApiResponse" where
  "request_try eng reply =
     (case reply of
        Rejects e \<Rightarrow> Inl e
      | Responds status parsed \<Rightarrow>
          (case parsed of
             Inl e \<Rightarrow> Inl e
           | Inr data \<Rightarrow>
               if \<not> ok status then
                 (if data = JNull then Inl (TypeError (null_message eng ''message''))
                  else Inr \<lparr>resp_data = None,
                            resp_error = Some (or_default (js_or (get data ''message'')
                                                                 (get data ''error''))
                                                          ''An error occurred'')\<rparr>)
               else Inr \<lparr>resp_data = Some data, resp_error = None\<rparr>))"

definition request ::
  "Engine \<Rightarrow> string \<Rightarrow> RequestInit \<Rightarrow> Reply \<Rightarrow> Env \<Rightarrow> ApiResponse \<times> Env" where
  "request eng endpoint options reply env =
     (let env' = env\<lparr>fetched := fetched env @ [prepare endpoint options env]\<rparr>
      in case request_try eng reply of
           Inr response \<Rightarrow> (response, env')
         | Inl e \<Rightarrow> (\<lparr>resp_data = None, resp_error = Some (JStr ''Network error occurred'')\<rparr>, env'))"

text \<open>The endpoint methods of the session, lines 76-120.\<close>

definition no_options :: RequestInit where
  "no_options = \<lparr>http_method = None, headers = Map.empty, body = None\<rparr>"

definition apiClient_register :: "Engine \<Rightarrow> json \<Rightarrow> Reply \<Rightarrow> Env \<Rightarrow> ApiResponse \<times> Env" where
  "apiClient_register eng userData reply env =
     request eng ''/auth/register/''
       \<lparr>http_method = Some ''POST'', headers = Map.empty, body = Some userData\<rparr> reply env"

definition apiClient_login :: "Engine \<Rightarrow> json \<Rightarrow> Reply \<Rightarrow> Env \<Rightarrow> ApiResponse \<times> Env" where
  "apiClient_login eng credentials reply env =
     (let (response, env') =
            request eng ''/auth/login/''
              \<lparr>http_method = Some ''POST'', headers = Map.empty, body = Some credentials\<rparr> reply env;
          access = opt_get (opt_get (resp_data response) ''tokens'') ''access''
      in case access of
           None \<Rightarrow> (response, env')
         | Some t \<Rightarrow> if truthy t then (response, setToken t env') else (response, env'))"

definition apiClient_logout :: "Engine \<Rightarrow> Reply \<Rightarrow> Env \<Rightarrow> ApiResponse \<times> Env" where
  "apiClient_logout eng reply env =
     (let (response, env') =
            request eng ''/auth/logout/''
              \<lparr>http_method = Some ''POST'', headers = Map.empty, body = None\<rparr> reply env
      in (response, clearToken env'))"

definition apiClient_getProfile :: "Engine \<Rightarrow> Reply \<Rightarrow> Env \<Rightarrow> ApiResponse \<times> Env" where
  "apiClient_getProfile eng reply env = request eng ''/auth/profile/'' no_options reply env"

definition apiClient_updateProfile ::
  "Engine \<Rightarrow> json \<Rightarrow> Reply \<Rightarrow> Env \<Rightarrow> ApiResponse \<times> Env" where
  "apiClient_updateProfile eng userData reply env =
     request eng ''/auth/me/update/''
       \<lparr>http_method = Some ''PUT'', headers = Map.empty, body = Some userData\<rparr> reply env"

section \<open>The session store (\<^verbatim>\<open>src/frontend/src/store/auth.ts\<close>)\<close>

text \<open>\<^verbatim>\<open>interface AuthState\<close>, lines 5-10; \<open>JNull\<close> is \<^verbatim>\<open>null\<close>.\<close>

record AuthState =
  user :: json
  isAuthenticated :: bool
  isLoading :: bool
  error :: json

text \<open>
  The module-level \<^verbatim>\<open>state\<close> with two histories kept for the proofs: every value
  assigned to \<^verbatim>\<open>state\<close>, and the snapshot current at every call of \<^verbatim>\<open>notify\<close>, oldest
  first. The listeners are React state setters, and \<^verbatim>\<open>toast\<close> is the notification
  library; both are taken not to throw and not to touch the store.
\<close>

record Store =
  state :: AuthState
  assigned :: "AuthState list"
  notified :: "AuthState list"

definition assign :: "AuthState \<Rightarrow> Store \<Rightarrow> Store" where
  "assign s st = st\<lparr>state := s, assigned := assigned st @ [s]\<rparr>"

definition notify :: "Store \<Rightarrow> Store" where
  "notify st = st\<lparr>notified := notified st @ [state st]\<rparr>"

text \<open>The initial state, lines 29-34.\<close>

definition initial :: Store where
  "initial =
     \<lparr>state = \<lparr>user = JNull, isAuthenticated = False, isLoading = False, error = JNull\<rparr>,
      assigned = [], notified = []\<rparr>"

text \<open>
  The store awaits a method of \<^verbatim>\<open>apiClient\<close> inside a \<^verbatim>\<open>try\<close>. The awaited call is
  a parameter of each operation: it takes the environment and either throws or returns a
  response, and leaves the environment it has changed. \<open>returning\<close> turns a method of the
  client above, which returns in every case, into such a call.
\<close>

type_synonym call = "Env \<Rightarrow> (exn + ApiResponse) \<times> Env"

definition returning :: "(Env \<Rightarrow> ApiResponse \<times> Env) \<Rightarrow> call" where
  "returning f env = (let (response, env') = f env in (Inr response, env'))"

text \<open>
  \<^verbatim>\<open>response.data && 'user' in response.data\<close>, lines 49 and 101, and the value of
  \<^verbatim>\<open>response.data.user\<close> when the test holds. The \<^verbatim>\<open>in\<close> operator throws on a truthy
  value that is not an object; an array is an object without the property.
\<close>

definition user_in :: "Engine \<Rightarrow> ApiResponse \<Rightarrow> exn + json option" where
  "user_in eng response =
     (case resp_data response of
        None \<Rightarrow> Inr None
      | Some d \<Rightarrow>
          if \<not> truthy d then Inr None
          else (case d of
                  JObj kvs \<Rightarrow> Inr (get d ''user'')
                | JArr xs \<Rightarrow> Inr None
                | _ \<Rightarrow> Inl (TypeError (in_message eng d))))"

text \<open>
  The \<^verbatim>\<open>catch\<close> of \<^verbatim>\<open>login\<close> and \<^verbatim>\<open>register\<close>, lines 73-84 and 125-136:
  \<^verbatim>\<open>error?.response?.data?.error || error?.message || 'Network error occurred'\<close>.
\<close>

definition catch_message :: "exn \<Rightarrow> json" where
  "catch_message e = or_default (js_or (response_data_error e) (message e)) ''Network error occurred''"

definition failed :: "json \<Rightarrow> Store \<Rightarrow> Store" where
  "failed msg st = notify (assign ((state st)\<lparr>error := msg, isLoading := False\<rparr>) st)"

text \<open>
  \<^verbatim>\<open>login\<close>, lines 42-85, and \<^verbatim>\<open>register\<close>, lines 87-137, differ in the method
  awaited and in the default message. In the success branch the state is assigned before
  the toast is built; \<^verbatim>\<open>response.data.user.username\<close> throws when the user is \<^verbatim>\<open>null\<close>,
  which lands in the \<^verbatim>\<open>catch\<close> with the assignment done.
\<close>

definition authenticate :: "string \<Rightarrow> Engine \<Rightarrow> call \<Rightarrow> Store \<times> Env \<Rightarrow> bool \<times> Store \<times> Env" where
  "authenticate fallback eng awaited = (\<lambda>(st, env).
     let st1 = notify (assign ((state st)\<lparr>isLoading := True, error := JNull\<rparr>) st);
         (outcome, env') = awaited env
     in case outcome of
          Inl e \<Rightarrow> (False, failed (catch_message e) st1, env')
        | Inr response \<Rightarrow>
            (case user_in eng response of
               Inl e \<Rightarrow> (False, failed (catch_message e) st1, env')
             | Inr None \<Rightarrow> (False, failed (or_default (resp_error response) fallback) st1, env')
             | Inr (Some u) \<Rightarrow>
                 let st2 = assign ((state st1)\<lparr>user := u, isAuthenticated := True,
                                               isLoading := False, error := JNull\<rparr>) st1
                 in if u = JNull
                    then (False, failed (catch_message (TypeError (null_message eng ''username''))) st2, env')
                    else (True, notify st2, env')))"

definition login :: "Engine \<Rightarrow> call \<Rightarrow> Store \<times> Env \<Rightarrow> bool \<times> Store \<times> Env" where
  "login = authenticate ''Login failed''"

definition register :: "Engine \<Rightarrow> call \<Rightarrow> Store \<times> Env \<Rightarrow> bool \<times> Store \<times> Env" where
  "register = authenticate ''Registration failed''"

text \<open>
  \<^verbatim>\<open>logout\<close>, lines 139-160: the outcome of the awaited call only chooses the toast.
\<close>

definition logout :: "call \<Rightarrow> Store \<times> Env \<Rightarrow> Store \<times> Env" where
  "logout awaited = (\<lambda>(st, env).
     let st1 = notify (assign ((state st)\<lparr>isLoading := True\<rparr>) st);
         (outcome, env') = awaited env
     in (notify (assign ((state st1)\<lparr>user := JNull, isAuthenticated := False,
                                     isLoading := False, error := JNull\<rparr>) st1), env'))"

text \<open>\<^verbatim>\<open>localStorage.removeItem\<close>, called where \<^verbatim>\<open>localStorage\<close> is known to exist.\<close>

definition removeItem :: "string \<Rightarrow> Env \<Rightarrow> Env" where
  "removeItem k env =
     env\<lparr>localStorage := (case localStorage env of
                            None \<Rightarrow> None
                          | Some m \<Rightarrow> Some (m(k := None)))\<rparr>"

text \<open>
  \<^verbatim>\<open>loadUser\<close>, lines 162-214. Line 164 names \<^verbatim>\<open>localStorage\<close> outside the
  \<^verbatim>\<open>try\<close>: where there is none the call throws. \<^verbatim>\<open>getItem\<close> yields \<^verbatim>\<open>null\<close> or a
  string, and \<^verbatim>\<open>!token\<close> holds for \<^verbatim>\<open>null\<close> and for the empty string.
\<close>

definition loadUser :: "Engine \<Rightarrow> call \<Rightarrow> Store \<times> Env \<Rightarrow> exn + Store \<times> Env" where
  "loadUser eng awaited = (\<lambda>(st, env).
     case localStorage env of
       None \<Rightarrow> Inl (Error (undefined_message eng ''localStorage''))
     | Some m \<Rightarrow>
        (if \<not> truthy_opt (map_option JStr (m ''access_token''))
         then Inr (notify (assign ((state st)\<lparr>user := JNull, isAuthenticated := False,
                                              isLoading := False\<rparr>) st), env)
         else
           let st1 = notify (assign ((state st)\<lparr>isLoading := True\<rparr>) st);
               (outcome, env') = awaited env
           in case outcome of
                Inr response \<Rightarrow>
                  (case resp_data response of
                     Some d \<Rightarrow>
                       if truthy d
                       then Inr (notify (assign ((state st1)\<lparr>user := d, isAuthenticated := True,
                                                            isLoading := False, error := JNull\<rparr>) st1),
                                 env')
                       else Inr (notify (assign ((state st1)\<lparr>user := JNull, isAuthenticated := False,
                                                            isLoading := False\<rparr>) st1),
                                 removeItem ''refresh_token'' (removeItem ''access_token'' env'))
                   | None \<Rightarrow>
                       Inr (notify (assign ((state st1)\<lparr>user := JNull, isAuthenticated := False,
                                                       isLoading := False\<rparr>) st1),
                            removeItem ''refresh_token'' (removeItem ''access_token'' env')))
              | Inl e \<Rightarrow>
                  Inr (notify (assign ((state st1)\<lparr>user := JNull, isAuthenticated := False,
                                                  isLoading := False,
                                                  error := or_default (message e) ''Failed to load user''\<rparr>) st1),
                       removeItem ''refresh_token'' (removeItem ''access_token'' env'))))"

text \<open>\<^verbatim>\<open>updateProfile\<close>, lines 216-250.\<close>

definition updateProfile :: "call \<Rightarrow> Store \<times> Env \<Rightarrow> bool \<times> Store \<times> Env" where
  "updateProfile awaited = (\<lambda>(st, env).
     let st1 = notify (assign ((state st)\<lparr>isLoading := True, error := JNull\<rparr>) st);
         (outcome, env') = awaited env
     in case outcome of
          Inr response \<Rightarrow>
            (case resp_data response of
               Some d \<Rightarrow>
                 if truthy d
                 then (True, notify (assign ((state st1)\<lparr>user := d, isLoading := False,
                                                        error := JNull\<rparr>) st1), env')
                 else (False, failed (or_default (resp_error response) ''Update failed'') st1, env')
             | None \<Rightarrow> (False, failed (or_default (resp_error response) ''Update failed'') st1, env'))
        | Inl e \<Rightarrow> (False, failed (JStr ''Network error occurred'') st1, env'))"

text \<open>\<^verbatim>\<open>clearError\<close>, lines 252-255.\<close>

definition clearError :: "Store \<Rightarrow> Store" where
  "clearError st = notify (assign ((state st)\<lparr>error := JNull\<rparr>) st)"

text \<open>
  A run of calls that go straight to the request primitive (the profile and poll methods;
  \<^verbatim>\<open>login\<close> and \<^verbatim>\<open>logout\<close> also change the token), each with the reply it gets.
\<close>

fun requests :: "Engine \<Rightarrow> (string \<times> RequestInit \<times> Reply) list \<Rightarrow> Env \<Rightarrow> Env" where
  "requests eng [] env = env"
| "requests eng ((endpoint, options, reply) # rs) env =
     requests eng rs (snd (request eng endpoint options reply env))"

text \<open>
  A reply to the profile request that does not give \<^verbatim>\<open>loadUser\<close> a user: no reply at
  all, a body that is not JSON, a status outside 200-299 (401 for a token the server does
  not accept), or a falsy body.
\<close>

definition unsuccessful :: "Reply \<Rightarrow> bool" where
  "unsuccessful reply =
     (case reply of
        Rejects e \<Rightarrow> True
      | Responds status parsed \<Rightarrow>
          (case parsed of Inl e \<Rightarrow> True | Inr data \<Rightarrow> \<not> ok status \<or> \<not> truthy data))"


section \<open>The second copy of the client (\<^verbatim>\<open>src/frontend/src/lib/validations.ts\<close>, lines 98-279)\<close>

text \<open>
  The file carries, after the form schemas that end at line 62, another copy of the
  \<^verbatim>\<open>ApiClient\<close> class.
  Its constructor, \<^verbatim>\<open>setToken\<close>, \<^verbatim>\<open>clearToken\<close> and endpoint methods are those of
  \<^verbatim>\<open>api.ts\<close>; its request primitive (lines 125-172) dispatches on the status and on
  the kind of exception. \<^verbatim>\<open>error.message.includes('fetch')\<close> is a substring test.
\<close>

definition request2_catch :: "exn \<Rightarrow> ApiResponse" where
  "request2_catch e =
     (case e of
        TypeError m \<Rightarrow>
          if sublist ''fetch'' m
          then \<lparr>resp_data = None,
                resp_error = Some (JStr ''Cannot connect to server. Please check if the backend server is running.'')\<rparr>
          else \<lparr>resp_data = None, resp_error = Some (JStr (''Network error: '' @ m))\<rparr>
      | Error m \<Rightarrow> \<lparr>resp_data = None, resp_error = Some (JStr (''Network error: '' @ m))\<rparr>
      | Thrown v \<Rightarrow> \<lparr>resp_data = None, resp_error = Some (JStr ''Network error: Unknown error'')\<rparr>)"

definition request2_try :: "Engine \<Rightarrow> Reply \<Rightarrow> Env \<Rightarrow> (exn + ApiResponse) \<times> Env" where
  "request2_try eng reply env =
     (case reply of
        Rejects e \<Rightarrow> (Inl e, env)
      | Responds status parsed \<Rightarrow>
          (case parsed of
             Inl e \<Rightarrow> (Inl e, env)
           | Inr data \<Rightarrow>
               if \<not> ok status then
                 (if status = 401
                  then (Inr \<lparr>resp_data = None,
                             resp_error = Some (JStr ''Authentication expired. Please log in again.'')\<rparr>,
                        clearToken env)
                  else if status \<ge> 500
                  then (Inr \<lparr>resp_data = None,
                             resp_error = Some (JStr ''Server error. Please try again later.'')\<rparr>, env)
                  else if status = 404
                  then (Inr \<lparr>resp_data = None, resp_error = Some (JStr ''Endpoint not found.'')\<rparr>, env)
                  else if data = JNull
                  then (Inl (TypeError (null_message eng ''message'')), env)
                  else (Inr \<lparr>resp_data = None,
                             resp_error =
                               Some (or_default (js_or (js_or (get data ''message'') (get data ''error''))
                                                       (get data ''detail''))
                                                (''Request failed with status '' @ dec status))\<rparr>, env))
               else (Inr \<lparr>resp_data = Some data, resp_error = None\<rparr>, env)))"

definition request2 ::
  "Engine \<Rightarrow> string \<Rightarrow> RequestInit \<Rightarrow> Reply \<Rightarrow> Env \<Rightarrow> ApiResponse \<times> Env" where
  "request2 eng endpoint options reply env =
     (let env' = env\<lparr>fetched := fetched env @ [prepare endpoint options env]\<rparr>
      in case request2_try eng reply env' of
           (Inr response, env'') \<Rightarrow> (response, env'')
         | (Inl e, env'') \<Rightarrow> (request2_catch e, env''))"

section \<open>Values for the examples\<close>

definition engine :: Engine where
  "engine =
     \<lparr>in_message = (\<lambda>v. ''Cannot use the in operator to search for user in '' @ js_string v),
      null_message = (\<lambda>k. ''Cannot read properties of null, reading '' @ k),
      undefined_message = (\<lambda>x. x @ '' is not defined'')\<rparr>"

definition alice :: json where
  "alice = JObj [(''id'', JNum 1), (''username'', JStr ''alice''), (''email'', JStr ''alice@example.org'')]"

definition granted :: json where
  "granted = JObj [(''user'', alice),
                   (''tokens'', JObj [(''access'', JStr ''tok1''), (''refresh'', JStr ''tok2'')])]"

definition credentials :: json where
  "credentials = JObj [(''username'', JStr ''alice''), (''password'', JStr ''secret123'')]"

text \<open>A browser with an empty store, and one that holds the tokens of an earlier login.\<close>

definition fresh :: Env where
  "fresh = ApiClient ''http://localhost:8000/api'' (Some Map.empty)"

definition returning_visitor :: Env where
  "returning_visitor =
     ApiClient ''http://localhost:8000/api''
       (Some [''access_token'' \<mapsto> ''tok1'', ''refresh_token'' \<mapsto> ''tok2''])"

text \<open>The store of a user who is logged in and has an error left from an earlier call.\<close>

definition logged_in :: Store where
  "logged_in =
     \<lparr>state = \<lparr>user = alice, isAuthenticated = True, isLoading = False,
                error = JStr ''Update failed''\<rparr>,
      assigned = [], notified = []\<rparr>"

definition unauthorized :: Reply where
  "unauthorized =
     Responds 401 (Inr (JObj [(''detail'', JStr ''Given token not valid for any token type'')]))"

definition stored :: "string \<rightharpoonup> string" where
  "stored = [''access_token'' \<mapsto> ''tok1'', ''refresh_token'' \<mapsto> ''tok2'']"


text \<open>A vote, as \<^verbatim>\<open>apiClient.vote(7, 3)\<close> sends it, and the reply it gets.\<close>

definition vote :: "string \<times> RequestInit \<times> Reply" where
  "vote = (''/polls/7/vote/'',
           \<lparr>http_method = Some ''POST'', headers = Map.empty,
            body = Some (JObj [(''option_id'', JNum 3)])\<rparr>,
           unauthorized)"

section \<open>Notions the properties are stated with\<close>


text \<open>The store and environment a call of \<^verbatim>\<open>loadUser\<close> ends with, if it does not throw.\<close>

definition settled :: "exn + Store \<times> Env \<Rightarrow> (Store \<times> Env) option" where
  "settled r = (case r of Inl e \<Rightarrow> None | Inr p \<Rightarrow> Some p)"

text \<open>The values an operation assigned to \<^verbatim>\<open>state\<close>, in order: \<open>st\<close> before, \<open>st'\<close> after.\<close>

definition mutations :: "Store \<Rightarrow> Store \<Rightarrow> AuthState list" where
  "mutations st st' = drop (length (assigned st)) (assigned st')"


text \<open>The invariant of the session: \<^verbatim>\<open>isAuthenticated\<close> equals \<^verbatim>\<open>user != null\<close>.\<close>

definition consistent :: "AuthState \<Rightarrow> bool" where
  "consistent s = (isAuthenticated s = (user s \<noteq> JNull))"

section \<open>Facts about the request primitive and the store\<close>

lemma request_env:
  "snd (request eng endpoint options reply env) =
     env\<lparr>fetched := fetched env @ [prepare endpoint options env]\<rparr>"
  by (simp add: request_def Let_def split: sum.splits)

lemma request_data:
  "resp_data (fst (request eng endpoint options reply env)) =
     (case reply of
        Rejects e \<Rightarrow> None
      | Responds status parsed \<Rightarrow>
          (case parsed of Inl e \<Rightarrow> None | Inr data \<Rightarrow> if ok status then Some data else None))"
  by (simp add: request_def request_try_def Let_def split: Reply.splits sum.splits)

lemma unsuccessful_data:
  "unsuccessful reply \<longleftrightarrow>
     \<not> truthy_opt (resp_data (fst (request eng endpoint options reply env)))"
  by (auto simp add: request_data unsuccessful_def split: Reply.splits sum.splits)

lemma returning_eq: "returning f env = (Inr (fst (f env)), snd (f env))"
  by (simp add: returning_def case_prod_beta)

lemma getProfile_returning:
  "returning (apiClient_getProfile eng reply) env =
     (Inr (fst (request eng ''/auth/profile/'' no_options reply env)),
      env\<lparr>fetched := fetched env @ [prepare ''/auth/profile/'' no_options env]\<rparr>)"
  by (simp add: returning_eq apiClient_getProfile_def request_env)


lemmas client_defs =
  returning_eq apiClient_login_def apiClient_register_def apiClient_logout_def
  apiClient_getProfile_def apiClient_updateProfile_def request_def request_try_def ok_def
  Let_def case_prod_beta

lemmas store_defs = assign_def notify_def failed_def user_in_def or_default_def js_or_def

lemma returning_visitor_storage: "localStorage returning_visitor = Some stored"
  by (simp add: returning_visitor_def ApiClient_def stored_def)

lemma returning_visitor_token: "token returning_visitor = JStr ''tok1''"
  by (simp add: returning_visitor_def ApiClient_def)

lemma stored_access: "stored ''access_token'' = Some ''tok1''"
  by (simp add: stored_def)

lemma unsuccessful_unauthorized: "unsuccessful unauthorized"
  by (simp add: unsuccessful_def unauthorized_def ok_def)

section \<open>Logout\<close>

text \<open>
  Claim C4. \<^verbatim>\<open>logout()\<close> always ends with \<^verbatim>\<open>user == null\<close>,
  \<^verbatim>\<open>isAuthenticated == false\<close>, \<^verbatim>\<open>error == null\<close> and \<^verbatim>\<open>isLoading == false\<close>,
  whatever the awaited remote call does: return a response with data, return an error
  result, or throw. The awaited call is any function here, so all three are covered, and so
  is every state the store may start from.
\<close>

theorem logout_always_clears:
  "state (fst (logout awaited (st, env))) =
     \<lparr>user = JNull, isAuthenticated = False, isLoading = False, error = JNull\<rparr>"
  by (simp add: logout_def assign_def notify_def Let_def split: prod.splits)

section \<open>Rehydration\<close>

text \<open>
  Claim C7. \<^verbatim>\<open>loadUser()\<close> called when durable storage holds no \<^verbatim>\<open>access_token\<close>
  performs no network call and ends at once with \<^verbatim>\<open>isAuthenticated == false\<close>,
  \<^verbatim>\<open>user == null\<close> and \<^verbatim>\<open>isLoading == false\<close>. The awaited profile call is any
  function: the result does not depend on it, and the environment, with its list of
  fetches, is the one the call started with.
\<close>

theorem loadUser_without_token:
  assumes "localStorage env = Some m" and "m ''access_token'' = None"
  shows "\<exists>st' env'. loadUser eng awaited (st, env) = Inr (st', env')
           \<and> env' = env \<and> fetched env' = fetched env
           \<and> user (state st') = JNull \<and> \<not> isAuthenticated (state st')
           \<and> \<not> isLoading (state st')"
  using assms by (simp add: loadUser_def assign_def notify_def)

text \<open>
  The claim at a browser with an empty store, a session that believes it is logged in and
  a server that would have answered with a profile.
\<close>

theorem loadUser_without_token_witness:
  "localStorage fresh = Some Map.empty
   \<and> Map.empty ''access_token'' = (None :: string option)
   \<and> (\<exists>st' env'. loadUser engine (returning (apiClient_getProfile engine (Responds 200 (Inr alice))))
                      (logged_in, fresh) = Inr (st', env')
          \<and> env' = fresh \<and> fetched env' = fetched fresh
          \<and> user (state st') = JNull \<and> \<not> isAuthenticated (state st')
          \<and> \<not> isLoading (state st'))"
  using loadUser_without_token
    [of fresh Map.empty engine "returning (apiClient_getProfile engine (Responds 200 (Inr alice)))"
        logged_in]
  by (simp add: fresh_def ApiClient_def)

text \<open>
  Claim C6. \<^verbatim>\<open>loadUser()\<close> called with a stored token whose profile fetch fails (a 401
  for a token the server rejects, any other status outside 200-299, a transport error,
  a body that cannot be parsed) removes the keys \<^verbatim>\<open>access_token\<close> and
  \<^verbatim>\<open>refresh_token\<close> from durable storage and ends with \<^verbatim>\<open>user == null\<close>,
  \<^verbatim>\<open>isAuthenticated == false\<close> and \<^verbatim>\<open>isLoading == false\<close>.
\<close>

theorem loadUser_failed_fetch:
  assumes "localStorage env = Some m" and "m ''access_token'' = Some t" and "t \<noteq> []"
    and "unsuccessful reply"
  shows "\<exists>st' env' m'.
           loadUser eng (returning (apiClient_getProfile eng reply)) (st, env) = Inr (st', env')
           \<and> localStorage env' = Some m'
           \<and> m' ''access_token'' = None \<and> m' ''refresh_token'' = None
           \<and> user (state st') = JNull \<and> \<not> isAuthenticated (state st')
           \<and> \<not> isLoading (state st')"
proof -
  let ?r = "fst (request eng ''/auth/profile/'' no_options reply env)"
  have d: "\<not> truthy_opt (resp_data ?r)"
    using assms(4) unsuccessful_data by blast
  show ?thesis
    using assms(1-3) d
    by (cases "resp_data ?r")
       (simp_all add: loadUser_def getProfile_returning assign_def notify_def removeItem_def Let_def)
qed

text \<open>The claim for a logged-in session whose stored token the server answers with 401.\<close>

theorem loadUser_failed_fetch_witness:
  "localStorage returning_visitor = Some stored
   \<and> stored ''access_token'' = Some ''tok1'' \<and> ''tok1'' \<noteq> []
   \<and> unsuccessful unauthorized
   \<and> (\<exists>st' env' m'.
          loadUser engine (returning (apiClient_getProfile engine unauthorized))
            (logged_in, returning_visitor) = Inr (st', env')
          \<and> localStorage env' = Some m'
          \<and> m' ''access_token'' = None \<and> m' ''refresh_token'' = None
          \<and> user (state st') = JNull \<and> \<not> isAuthenticated (state st')
          \<and> \<not> isLoading (state st'))"
proof -
  have b: "''tok1'' \<noteq> []"
    by simp
  from loadUser_failed_fetch
    [OF returning_visitor_storage stored_access b unsuccessful_unauthorized, of engine logged_in]
  show ?thesis
    using returning_visitor_storage stored_access unsuccessful_unauthorized by simp
qed

section \<open>Failed login and registration\<close>





section \<open>The token in memory after a failed rehydration\<close>

lemma prepare_bearer:
  "truthy (token env) \<Longrightarrow>
   fetch_headers (prepare endpoint options env) ''Authorization'' =
     Some (''Bearer '' @ js_string (token env))"
  by (simp add: prepare_def Let_def)

lemma requests_storage: "localStorage (requests eng rs env) = localStorage env"
  by (induction rs arbitrary: env) (auto simp add: request_env)

lemma requests_bearer:
  assumes "truthy (token env)"
  shows "\<exists>fs. fetched (requests eng rs env) = fetched env @ fs \<and> length fs = length rs \<and>
     (\<forall>f \<in> set fs. fetch_headers f ''Authorization'' = Some (''Bearer '' @ js_string (token env)))"
  using assms
proof (induction rs arbitrary: env)
  case Nil
  then show ?case by simp
next
  case (Cons r rs)
  obtain endpoint options reply where r: "r = (endpoint, options, reply)"
    by (cases r) auto
  let ?env = "snd (request eng endpoint options reply env)"
  have t: "token ?env = token env"
    and f: "fetched ?env = fetched env @ [prepare endpoint options env]"
    by (simp_all add: request_env)
  from Cons.IH [of ?env] Cons.prems t
  obtain fs where fs: "fetched (requests eng rs ?env) = fetched ?env @ fs" "length fs = length rs"
    "\<forall>f \<in> set fs. fetch_headers f ''Authorization'' = Some (''Bearer '' @ js_string (token env))"
    by auto
  show ?case
    using fs f prepare_bearer [OF Cons.prems]
    by (intro exI [of _ "prepare endpoint options env # fs"]) (simp add: r)
qed

text \<open>
  Claim C10. The failure path of \<^verbatim>\<open>loadUser()\<close> removes the token keys from durable
  storage but does not clear the token field of the client in memory, so every request
  issued afterwards in the same process (\<open>rs\<close>, any run of calls of the request
  primitive, with any replies) still carries \<^verbatim>\<open>Authorization: Bearer\<close> with the stale
  token although durable storage holds none.
\<close>

theorem stale_token_attached:
  assumes "localStorage env = Some m" and "m ''access_token'' = Some t" and "t \<noteq> []"
    and "truthy (token env)"
    and "unsuccessful reply"
  shows "\<exists>st' env' m' fs.
           loadUser eng (returning (apiClient_getProfile eng reply)) (st, env) = Inr (st', env')
           \<and> localStorage env' = Some m'
           \<and> m' ''access_token'' = None \<and> m' ''refresh_token'' = None
           \<and> token env' = token env
           \<and> fetched (requests eng rs env') = fetched env' @ fs \<and> length fs = length rs
           \<and> (\<forall>f \<in> set fs. fetch_headers f ''Authorization'' =
                               Some (''Bearer '' @ js_string (token env)))
           \<and> localStorage (requests eng rs env') = Some m'"
proof -
  let ?r = "fst (request eng ''/auth/profile/'' no_options reply env)"
  let ?env = "removeItem ''refresh_token'' (removeItem ''access_token''
                (env\<lparr>fetched := fetched env @ [prepare ''/auth/profile/'' no_options env]\<rparr>))"
  have d: "\<not> truthy_opt (resp_data ?r)"
    using assms(5) unsuccessful_data by blast
  have l: "\<exists>st'. loadUser eng (returning (apiClient_getProfile eng reply)) (st, env) = Inr (st', ?env)"
    using assms(1-3) d
    by (cases "resp_data ?r") (simp_all add: loadUser_def getProfile_returning Let_def)
  have t: "token ?env = token env"
    by (simp add: removeItem_def)
  have s: "localStorage ?env = Some (m(''access_token'' := None, ''refresh_token'' := None))"
    using assms(1) by (simp add: removeItem_def)
  from requests_bearer [of ?env eng rs] assms(4) t
  obtain fs where "fetched (requests eng rs ?env) = fetched ?env @ fs" "length fs = length rs"
    "\<forall>f \<in> set fs. fetch_headers f ''Authorization'' = Some (''Bearer '' @ js_string (token env))"
    by auto
  with l t s requests_storage [of eng rs ?env] show ?thesis by auto
qed

text \<open>
  The claim for a returning visitor whose stored token the server answers with 401, and
  the vote cast after the failed \<^verbatim>\<open>loadUser()\<close>.
\<close>

theorem stale_token_attached_witness:
  "localStorage returning_visitor = Some stored
   \<and> stored ''access_token'' = Some ''tok1'' \<and> ''tok1'' \<noteq> []
   \<and> truthy (token returning_visitor)
   \<and> unsuccessful unauthorized
   \<and> (\<exists>st' env' m' f.
          loadUser engine (returning (apiClient_getProfile engine unauthorized))
            (logged_in, returning_visitor) = Inr (st', env')
          \<and> localStorage env' = Some m'
          \<and> m' ''access_token'' = None \<and> m' ''refresh_token'' = None
          \<and> token env' = JStr ''tok1''
          \<and> fetched (requests engine [vote] env') = fetched env' @ [f]
          \<and> fetch_headers f ''Authorization'' = Some ''Bearer tok1'')"
proof -
  have b: "''tok1'' \<noteq> []"
    by simp
  have c: "truthy (token returning_visitor)"
    by (simp add: returning_visitor_token)
  from stale_token_attached
    [OF returning_visitor_storage stored_access b c unsuccessful_unauthorized,
      of engine logged_in "[vote]"]
  obtain st' env' m' fs where
    r: "loadUser engine (returning (apiClient_getProfile engine unauthorized))
            (logged_in, returning_visitor) = Inr (st', env')"
      "localStorage env' = Some m'" "m' ''access_token'' = None" "m' ''refresh_token'' = None"
      "token env' = token returning_visitor"
      "fetched (requests engine [vote] env') = fetched env' @ fs" "length fs = length [vote]"
      "\<forall>f \<in> set fs. fetch_headers f ''Authorization'' =
                               Some (''Bearer '' @ js_string (token returning_visitor))"
      "localStorage (requests engine [vote] env') = Some m'"
    by blast
  from r(7) obtain f where fs: "fs = [f]"
    by (cases fs) auto
  from r fs show ?thesis
    using returning_visitor_storage stored_access c unsuccessful_unauthorized
    by (simp add: returning_visitor_token)
qed

section \<open>The invariant of the session\<close>

text \<open>
  Every operation but two keeps or establishes the invariant: \<^verbatim>\<open>logout\<close> and
  \<^verbatim>\<open>loadUser\<close> establish it from any state, \<^verbatim>\<open>clearError\<close> and every failing call keep
  it, and \<^verbatim>\<open>updateProfile\<close> keeps it when the session is authenticated. It is lost by a
  successful \<^verbatim>\<open>updateProfile\<close> from an unauthenticated state (below), and by a
  \<^verbatim>\<open>login\<close> or \<^verbatim>\<open>register\<close> whose response has \<^verbatim>\<open>"user": null\<close>.
\<close>

lemma logout_consistent: "consistent (state (fst (logout awaited (st, env))))"
  by (simp add: consistent_def logout_def assign_def notify_def Let_def split: prod.splits)

lemma loadUser_consistent:
  "loadUser eng awaited (st, env) = Inr (st', env') \<Longrightarrow> consistent (state st')"
  by (auto simp add: consistent_def loadUser_def assign_def notify_def Let_def case_prod_beta
        split: option.splits if_splits sum.splits)

lemma clearError_consistent: "consistent (state st) \<Longrightarrow> consistent (state (clearError st))"
  by (simp add: consistent_def clearError_def assign_def notify_def)

lemma updateProfile_consistent:
  "consistent (state st) \<Longrightarrow> isAuthenticated (state st) \<Longrightarrow>
   consistent (state (fst (snd (updateProfile awaited (st, env)))))"
  by (auto simp add: consistent_def updateProfile_def store_defs Let_def case_prod_beta
        split: option.splits sum.splits)

lemma authenticate_consistent:
  "consistent (state st) \<Longrightarrow>
   user (state (fst (snd (authenticate fallback eng awaited (st, env))))) \<noteq> JNull
     \<or> \<not> isAuthenticated (state (fst (snd (authenticate fallback eng awaited (st, env))))) \<Longrightarrow>
   consistent (state (fst (snd (authenticate fallback eng awaited (st, env)))))"
  by (auto simp add: consistent_def authenticate_def store_defs Let_def case_prod_beta
        split: option.splits sum.splits if_splits)

text \<open>
  Claim C1. In every settled state \<^verbatim>\<open>isAuthenticated\<close> equals \<^verbatim>\<open>user != null\<close>,
  also after a successful \<^verbatim>\<open>updateProfile\<close> from an unauthenticated state. The code
  does not keep it there: on a page that has just been loaded, with the tokens of an
  earlier login in storage and the store in its initial state, \<^verbatim>\<open>updateProfile({bio:
  "hi"})\<close> answered with the updated user returns \<^verbatim>\<open>true\<close> and settles with a user
  and \<^verbatim>\<open>isAuthenticated == false\<close>. The success branches of \<^verbatim>\<open>login\<close>,
  \<^verbatim>\<open>register\<close> and \<^verbatim>\<open>loadUser\<close> assign both fields; that of \<^verbatim>\<open>updateProfile\<close>
  assigns \<^verbatim>\<open>user\<close> alone.
\<close>

theorem updateProfile_unauthenticated:
  "fst (updateProfile
          (returning (apiClient_updateProfile engine (JObj [(''bio'', JStr ''hi'')])
                        (Responds 200 (Inr alice))))
          (initial, returning_visitor))
   \<and> state (fst (snd (updateProfile
          (returning (apiClient_updateProfile engine (JObj [(''bio'', JStr ''hi'')])
                        (Responds 200 (Inr alice))))
          (initial, returning_visitor))))
     = \<lparr>user = alice, isAuthenticated = False, isLoading = False, error = JNull\<rparr>
   \<and> alice \<noteq> JNull
   \<and> \<not> consistent \<lparr>user = alice, isAuthenticated = False, isLoading = False, error = JNull\<rparr>"
  by (simp add: updateProfile_def client_defs store_defs initial_def alice_def consistent_def)

section \<open>The token after registration\<close>

lemma register_leaves_token:
  "token (snd (apiClient_register eng userData reply env)) = token env
   \<and> localStorage (snd (apiClient_register eng userData reply env)) = localStorage env"
  by (simp add: apiClient_register_def request_env)

text \<open>
  Claim C3. The token is stored, in memory and in durable storage, on a successful login
  response and on a successful registration response. \<^verbatim>\<open>apiClient.login\<close> does so;
  \<^verbatim>\<open>apiClient.register\<close> returns the response of the request primitive as it is. At a
  registration that the server answers with 201, a user and the tokens \<^verbatim>\<open>tok1\<close> and
  \<^verbatim>\<open>tok2\<close>, the store reports success and \<^verbatim>\<open>isAuthenticated\<close>, the client's token is
  still \<^verbatim>\<open>null\<close> and storage is still empty; the same reply to a login leaves
  \<^verbatim>\<open>tok1\<close> in both places.
\<close>

theorem register_stores_no_token:
  "fst (register engine (returning (apiClient_register engine credentials (Responds 201 (Inr granted))))
          (initial, fresh))
   \<and> isAuthenticated (state (fst (snd (register engine
          (returning (apiClient_register engine credentials (Responds 201 (Inr granted))))
          (initial, fresh)))))
   \<and> token (snd (snd (register engine
          (returning (apiClient_register engine credentials (Responds 201 (Inr granted))))
          (initial, fresh)))) = JNull
   \<and> localStorage (snd (snd (register engine
          (returning (apiClient_register engine credentials (Responds 201 (Inr granted))))
          (initial, fresh)))) = Some Map.empty
   \<and> token (snd (snd (login engine
          (returning (apiClient_login engine credentials (Responds 200 (Inr granted))))
          (initial, fresh)))) = JStr ''tok1''
   \<and> localStorage (snd (snd (login engine
          (returning (apiClient_login engine credentials (Responds 200 (Inr granted))))
          (initial, fresh)))) = Some [''access_token'' \<mapsto> ''tok1'']"
  by (simp add: register_def login_def authenticate_def client_defs store_defs initial_def
        fresh_def ApiClient_def granted_def alice_def setToken_def)

section \<open>A 401 response\<close>

lemma request2_unauthorized:
  "request2 eng endpoint options (Responds 401 (Inr data)) env =
     (\<lparr>resp_data = None,
       resp_error = Some (JStr ''Authentication expired. Please log in again.'')\<rparr>,
      clearToken (env\<lparr>fetched := fetched env @ [prepare endpoint options env]\<rparr>))"
  by (simp add: request2_def request2_try_def ok_def Let_def)

text \<open>
  Claim C2, amended. The claim is that a 401 response makes the request primitive clear
  the token, in memory and in durable storage, whichever endpoint produced it, so that a
  following \<^verbatim>\<open>loadUser\<close> finds no token and makes no network call. That is so for the
  request primitive of the second copy of the client, when the body of the 401 parses.
  The request primitive of \<^verbatim>\<open>api.ts\<close> has no branch on the status: after a 401 the
  token is in memory and in storage as before, and a following \<^verbatim>\<open>loadUser\<close> finds it
  and issues the profile request (two fetches in all).
\<close>

theorem unauthorized_token:
  assumes "localStorage env = Some m" and "m ''access_token'' = Some t" and "t \<noteq> []"
  shows "token (snd (request eng endpoint options (Responds 401 parsed) env)) = token env
       \<and> localStorage (snd (request eng endpoint options (Responds 401 parsed) env)) = Some m
       \<and> (\<exists>st' env'.
             loadUser eng (returning (apiClient_getProfile eng reply))
               (st, snd (request eng endpoint options (Responds 401 parsed) env)) = Inr (st', env')
             \<and> length (fetched env') = length (fetched env) + 2)
       \<and> token (snd (request2 eng endpoint options (Responds 401 (Inr data)) env)) = JNull
       \<and> localStorage (snd (request2 eng endpoint options (Responds 401 (Inr data)) env)) =
           Some (m(''access_token'' := None))
       \<and> (\<exists>st'.
             loadUser eng awaited (st, snd (request2 eng endpoint options (Responds 401 (Inr data)) env))
               = Inr (st', snd (request2 eng endpoint options (Responds 401 (Inr data)) env))
             \<and> user (state st') = JNull \<and> \<not> isAuthenticated (state st')
             \<and> \<not> isLoading (state st'))"
proof -
  let ?env = "snd (request eng endpoint options (Responds 401 parsed) env)"
  let ?env2 = "snd (request2 eng endpoint options (Responds 401 (Inr data)) env)"
  have a: "token ?env = token env" "localStorage ?env = Some m"
    using assms(1) by (simp_all add: request_env)
  have b: "\<exists>st' env'.
             loadUser eng (returning (apiClient_getProfile eng reply)) (st, ?env) = Inr (st', env')
             \<and> length (fetched env') = length (fetched env) + 2"
    using assms
    by (simp add: request_env loadUser_def getProfile_returning removeItem_def Let_def
          split: option.splits)
  have c: "token ?env2 = JNull" "localStorage ?env2 = Some (m(''access_token'' := None))"
    using assms(1) by (simp_all add: request2_unauthorized clearToken_def)
  have d: "\<exists>st'. loadUser eng awaited (st, ?env2) = Inr (st', ?env2)
              \<and> user (state st') = JNull \<and> \<not> isAuthenticated (state st')
              \<and> \<not> isLoading (state st')"
    using c(2) by (simp add: loadUser_def assign_def notify_def)
  from a b c d show ?thesis
    by blast
qed

text \<open>
  The claim as stated fails on \<^verbatim>\<open>api.ts\<close>: a returning visitor's profile request is
  answered with 401, and the client still holds \<^verbatim>\<open>tok1\<close>, storage still has it, and
  the \<^verbatim>\<open>loadUser\<close> that follows makes the second fetch. In the second copy a 401
  without a JSON body leaves the token too: \<^verbatim>\<open>response.json()\<close> throws before the
  status is looked at.
\<close>

theorem unauthorized_token_counterexample:
  "token (snd (apiClient_getProfile engine unauthorized returning_visitor)) = JStr ''tok1''
   \<and> localStorage (snd (apiClient_getProfile engine unauthorized returning_visitor)) = Some stored
   \<and> stored ''access_token'' = Some ''tok1''
   \<and> map_option (length \<circ> fetched \<circ> snd)
        (settled (loadUser engine (returning (apiClient_getProfile engine unauthorized))
                    (logged_in, snd (apiClient_getProfile engine unauthorized returning_visitor))))
      = Some 2
   \<and> token (snd (request2 engine ''/auth/profile/'' no_options
                     (Responds 401 (Inl (Error ''Unexpected end of JSON input''))) returning_visitor))
      = JStr ''tok1''"
  by (simp add: apiClient_getProfile_def request_env loadUser_def returning_eq settled_def
        request_data unauthorized_def ok_def removeItem_def returning_visitor_def ApiClient_def
        stored_def request2_def request2_try_def Let_def)

text \<open>The amended claim for a vote that a returning visitor's client sends and gets 401 for.\<close>

theorem unauthorized_token_witness:
  "localStorage returning_visitor = Some stored
   \<and> stored ''access_token'' = Some ''tok1'' \<and> ''tok1'' \<noteq> []
   \<and> token (snd (request engine ''/polls/7/vote/'' no_options unauthorized returning_visitor))
        = JStr ''tok1''
   \<and> localStorage (snd (request engine ''/polls/7/vote/'' no_options unauthorized returning_visitor))
        = Some stored
   \<and> token (snd (request2 engine ''/polls/7/vote/'' no_options unauthorized returning_visitor))
        = JNull
   \<and> localStorage (snd (request2 engine ''/polls/7/vote/'' no_options unauthorized returning_visitor))
        = Some (stored(''access_token'' := None))"
proof -
  have b: "''tok1'' \<noteq> []"
    by simp
  from unauthorized_token [OF returning_visitor_storage stored_access b, where eng = engine
      and endpoint = "''/polls/7/vote/''" and options = no_options
      and parsed = "Inr (JObj [(''detail'', JStr ''Given token not valid for any token type'')])"
      and data = "JObj [(''detail'', JStr ''Given token not valid for any token type'')]"]
  show ?thesis
    using returning_visitor_storage stored_access
    by (simp add: unauthorized_def returning_visitor_token)
qed

section \<open>Results of the request primitive\<close>



text \<open>
  The second copy of the client reads \<^verbatim>\<open>detail\<close> and tells a failed fetch from other
  exceptions, but answers 401, 404 and 500 and above with fixed messages, whatever the body.
\<close>

lemma request2_normalizes:
  "fst (request2 eng endpoint options reply env) =
     (case reply of
        Rejects e \<Rightarrow> request2_catch e
      | Responds status parsed \<Rightarrow>
          (case parsed of
             Inl e \<Rightarrow> request2_catch e
           | Inr data \<Rightarrow>
               if ok status then \<lparr>resp_data = Some data, resp_error = None\<rparr>
               else if status = 401
               then \<lparr>resp_data = None,
                     resp_error = Some (JStr ''Authentication expired. Please log in again.'')\<rparr>
               else if status \<ge> 500
               then \<lparr>resp_data = None,
                     resp_error = Some (JStr ''Server error. Please try again later.'')\<rparr>
               else if status = 404
               then \<lparr>resp_data = None, resp_error = Some (JStr ''Endpoint not found.'')\<rparr>
               else if data = JNull then request2_catch (TypeError (null_message eng ''message''))
               else if truthy_opt (get data ''message'')
               then \<lparr>resp_data = None, resp_error = get data ''message''\<rparr>
               else if truthy_opt (get data ''error'')
               then \<lparr>resp_data = None, resp_error = get data ''error''\<rparr>
               else if truthy_opt (get data ''detail'')
               then \<lparr>resp_data = None, resp_error = get data ''detail''\<rparr>
               else \<lparr>resp_data = None,
                     resp_error = Some (JStr (''Request failed with status '' @ dec status))\<rparr>))"
proof (cases reply)
  case (Rejects e)
  then show ?thesis
    by (simp add: request2_def request2_try_def Let_def)
next
  case (Responds status parsed)
  show ?thesis
  proof (cases parsed)
    case (Inl e)
    with Responds show ?thesis
      by (simp add: request2_def request2_try_def Let_def)
  next
    case (Inr data)
    have "or_default (js_or (js_or (get data ''message'') (get data ''error'')) (get data ''detail'')) d =
            (if truthy_opt (get data ''message'') then the (get data ''message'')
             else if truthy_opt (get data ''error'') then the (get data ''error'')
             else if truthy_opt (get data ''detail'') then the (get data ''detail'')
             else JStr d)" for d
      by (cases "get data ''message''"; cases "get data ''error''"; cases "get data ''detail''")
         (simp_all add: or_default_def js_or_def)
    moreover have "truthy_opt x \<Longrightarrow> Some (the x) = x" for x
      by (cases x) simp_all
    ultimately show ?thesis
      using Responds Inr
      by (simp add: request2_def request2_try_def Let_def)
  qed
qed

lemma request2_examples:
  "resp_error (fst (request2 engine ''/polls/7/vote/'' no_options
       (Responds 400 (Inr (JObj [(''detail'', JStr ''Already voted.'')]))) fresh))
     = Some (JStr ''Already voted.'')
   \<and> resp_error (fst (request2 engine ''/polls/'' no_options
       (Rejects (TypeError ''Failed to fetch'')) fresh))
     = Some (JStr ''Cannot connect to server. Please check if the backend server is running.'')
   \<and> resp_error (fst (request2 engine ''/polls/'' no_options
       (Responds 200 (Inl (Error ''Unexpected end of JSON input''))) fresh))
     = Some (JStr ''Network error: Unexpected end of JSON input'')"
  by (simp add: request2_def request2_try_def request2_catch_def ok_def or_default_def js_or_def
        Let_def sublist_code(3))

section \<open>When the error is cleared\<close>

lemma authenticate_first:
  "take 1 (mutations st (fst (snd (authenticate fallback eng awaited (st, env))))) =
     [(state st)\<lparr>isLoading := True, error := JNull\<rparr>]"
  by (simp add: mutations_def authenticate_def store_defs Let_def case_prod_beta
        split: sum.splits option.splits)

text \<open>
  Claim C8, amended. The claim is that each of \<^verbatim>\<open>login\<close>, \<^verbatim>\<open>register\<close>,
  \<^verbatim>\<open>logout\<close>, \<^verbatim>\<open>loadUser\<close> and \<^verbatim>\<open>updateProfile\<close> sets \<^verbatim>\<open>error\<close> to \<^verbatim>\<open>null\<close> in
  its first assignment to the state. \<^verbatim>\<open>login\<close>, \<^verbatim>\<open>register\<close> and
  \<^verbatim>\<open>updateProfile\<close> do. The first assignment of \<^verbatim>\<open>logout\<close> sets \<^verbatim>\<open>isLoading\<close>
  only, and its second and last one clears \<^verbatim>\<open>error\<close>. The first assignment of
  \<^verbatim>\<open>loadUser\<close>, in a browser, leaves \<^verbatim>\<open>error\<close> as it was. \<^verbatim>\<open>clearError\<close>
  clears it.
\<close>

theorem error_cleared_at_start:
  assumes "localStorage env = Some m"
  shows
  "take 1 (mutations st (fst (snd (login eng awaited (st, env))))) =
     [(state st)\<lparr>isLoading := True, error := JNull\<rparr>]
   \<and> take 1 (mutations st (fst (snd (register eng awaited (st, env))))) =
       [(state st)\<lparr>isLoading := True, error := JNull\<rparr>]
   \<and> take 1 (mutations st (fst (snd (updateProfile awaited (st, env))))) =
       [(state st)\<lparr>isLoading := True, error := JNull\<rparr>]
   \<and> mutations st (fst (logout awaited (st, env))) =
       [(state st)\<lparr>isLoading := True\<rparr>,
        \<lparr>user = JNull, isAuthenticated = False, isLoading = False, error = JNull\<rparr>]
   \<and> (\<exists>st' env'. loadUser eng awaited (st, env) = Inr (st', env')
         \<and> map error (take 1 (mutations st st')) = [error (state st)])
   \<and> error (state (clearError st)) = JNull"
proof -
  have "error (state (clearError st)) = JNull"
    by (simp add: clearError_def assign_def notify_def)
  moreover have "take 1 (mutations st (fst (snd (updateProfile awaited (st, env))))) =
          [(state st)\<lparr>isLoading := True, error := JNull\<rparr>]"
    by (simp add: mutations_def updateProfile_def store_defs Let_def case_prod_beta
        split: sum.splits option.splits)
  moreover have "mutations st (fst (logout awaited (st, env))) =
        [(state st)\<lparr>isLoading := True\<rparr>,
         \<lparr>user = JNull, isAuthenticated = False, isLoading = False, error = JNull\<rparr>]"
    by (simp add: mutations_def logout_def store_defs Let_def case_prod_beta)
  moreover have "\<exists>st' env'. loadUser eng awaited (st, env) = Inr (st', env')
         \<and> map error (take 1 (mutations st st')) = [error (state st)]"
    using assms
    by (simp add: mutations_def loadUser_def store_defs Let_def case_prod_beta
        split: sum.splits option.splits)
  moreover have "take 1 (mutations st (fst (snd (login eng awaited (st, env))))) =
          [(state st)\<lparr>isLoading := True, error := JNull\<rparr>]"
    unfolding login_def by (rule authenticate_first)
  moreover have "take 1 (mutations st (fst (snd (register eng awaited (st, env))))) =
          [(state st)\<lparr>isLoading := True, error := JNull\<rparr>]"
    unfolding register_def by (rule authenticate_first)
  ultimately show ?thesis
    by blast
qed

text \<open>
  The claim as stated fails for \<^verbatim>\<open>logout\<close> and for \<^verbatim>\<open>loadUser\<close>: started with the
  error of an earlier call, the first state \<^verbatim>\<open>logout\<close> assigns still has it, and
  \<^verbatim>\<open>loadUser\<close> with a token the server rejects still has it when it has settled.
\<close>

theorem error_cleared_at_start_counterexample:
  "map error (take 1 (mutations logged_in
       (fst (logout (returning (apiClient_logout engine (Responds 200 (Inr (JObj [])))))
               (logged_in, returning_visitor)))))
     = [JStr ''Update failed'']
   \<and> map_option (error \<circ> state \<circ> fst)
        (settled (loadUser engine (returning (apiClient_getProfile engine unauthorized))
                    (logged_in, returning_visitor)))
     = Some (JStr ''Update failed'')"
  by (simp add: mutations_def logout_def loadUser_def settled_def client_defs store_defs
        clearToken_def logged_in_def returning_visitor_def ApiClient_def unauthorized_def)

text \<open>The amended claim for a login that succeeds in a session with an error left over.\<close>

theorem error_cleared_at_start_witness:
  "localStorage returning_visitor = Some stored
   \<and> take 1 (mutations logged_in
        (fst (snd (login engine
           (returning (apiClient_login engine credentials (Responds 200 (Inr granted))))
           (logged_in, returning_visitor)))))
      = [\<lparr>user = alice, isAuthenticated = True, isLoading = True, error = JNull\<rparr>]"
  using error_cleared_at_start [where env = returning_visitor and st = logged_in and eng = engine
        and awaited = "returning (apiClient_login engine credentials (Responds 200 (Inr granted)))"
        and m = stored]
  by (simp add: returning_visitor_storage logged_in_def)

end
